theory Spec2Isabelle
  imports Complex_Main
begin

section \<open>Strings as Python uses them\<close>

text \<open>
  Python strings are modelled as HOL strings restricted to ASCII. The helpers below
  are the library operations the source applies to them: \<open>str.lower\<close>, the
  substring test \<open>x in s\<close>, \<open>str.split()\<close> on runs of white space and
  \<open>str.strip()\<close>.
\<close>

definition lower_char :: "char \<Rightarrow> char" where
  "lower_char c =
     (let n = (of_char c :: nat) in if 65 \<le> n \<and> n \<le> 90 then char_of (n + 32) else c)"

definition lower :: "string \<Rightarrow> string" where
  "lower s = map lower_char s"

fun starts_with :: "string \<Rightarrow> string \<Rightarrow> bool" where
  "starts_with s [] = True"
| "starts_with [] (p # ps) = False"
| "starts_with (c # cs) (p # ps) = (c = p \<and> starts_with cs ps)"

text \<open>\<open>contains s x\<close> is Python's \<open>x in s\<close>.\<close>

fun contains :: "string \<Rightarrow> string \<Rightarrow> bool" where
  "contains [] x = (x = [])"
| "contains (c # cs) x = (starts_with (c # cs) x \<or> contains cs x)"

definition is_space :: "char \<Rightarrow> bool" where
  "is_space c = (let n = (of_char c :: nat) in (9 \<le> n \<and> n \<le> 13) \<or> (28 \<le> n \<and> n \<le> 32))"

text \<open>
  \<open>split_ws\<close> is \<open>str.split()\<close> with no argument: the maximal runs of
  characters that are not white space, in order. The accumulator holds the word
  being read.
\<close>

fun split_ws_acc :: "string \<Rightarrow> string \<Rightarrow> string list" where
  "split_ws_acc acc [] = (if acc = [] then [] else [acc])"
| "split_ws_acc acc (c # cs) =
     (if is_space c then (if acc = [] then split_ws_acc [] cs else acc # split_ws_acc [] cs)
      else split_ws_acc (acc @ [c]) cs)"

definition split_ws :: "string \<Rightarrow> string list" where
  "split_ws s = split_ws_acc [] s"

definition strip :: "string \<Rightarrow> string" where
  "strip s = rev (dropWhile is_space (rev (dropWhile is_space s)))"

section \<open>Insight records and the filter, deduplicate, rank stage\<close>

text \<open>
  \<open>EnhancedBusinessInsight\<close> of \<open>business_insights_engine.py\<close>, with the fields
  the quality stage reads. \<open>confidence_score\<close> is a Python float and
  \<open>financial_impact\<close> an optional \<open>Decimal\<close>; both are modelled by the rational
  number their decimal notation denotes. Rounding a decimal to the nearest double is
  monotone, so the comparisons with the literals \<open>0.7\<close> and \<open>0.8\<close> agree with the
  comparisons of the rationals for every value that is itself written as a short
  decimal. A field that Python tests for truth (\<open>if insight.financial_impact\<close>) is
  tested by \<open>truthy_num\<close> and \<open>truthy_list\<close>: \<open>None\<close>, zero and the empty list
  are false.
\<close>

record insight =
  document_id :: string
  insight_type :: string
  title :: string
  description :: string
  confidence_score :: rat
  severity :: string
  financial_impact :: "rat option"
  urgency_indicators :: "string list option"
  critical_path_impact :: bool

definition truthy_num :: "rat option \<Rightarrow> bool" where
  "truthy_num v = (case v of None \<Rightarrow> False | Some x \<Rightarrow> x \<noteq> 0)"

definition truthy_list :: "'a list option \<Rightarrow> bool" where
  "truthy_list v = (case v of None \<Rightarrow> False | Some xs \<Rightarrow> xs \<noteq> [])"

text \<open>The values of the enumeration \<open>BusinessInsightType\<close>, in declaration order.\<close>

definition business_insight_types :: "string list" where
  "business_insight_types =
     [''action_item'', ''decision'', ''risk'', ''opportunity'', ''milestone'', ''blocker'',
      ''dependency'', ''budget_impact'', ''timeline_change'', ''stakeholder_concern'',
      ''technical_debt'', ''resource_need'', ''compliance_issue'', ''strategic_pivot'',
      ''performance_metric'']"

definition obvious_routine :: "string list" where
  "obvious_routine =
     [''meeting held'', ''meeting scheduled'', ''attendees present'', ''agenda reviewed'',
      ''minutes taken'', ''next meeting'', ''will follow up'', ''will check back'']"

text \<open>
  \<open>_is_obviously_routine\<close>: the loop returns at the first indicator found in the
  lower-cased title and description, with the answer depending only on the insight,
  so the result is decided by whether any indicator occurs.
\<close>

fun routine_scan :: "insight \<Rightarrow> string \<Rightarrow> string list \<Rightarrow> bool" where
  "routine_scan i txt [] = False"
| "routine_scan i txt (ind # inds) =
     (if contains txt ind then
        (if truthy_num (financial_impact i) \<or> critical_path_impact i \<or>
            severity i = ''critical'' \<or> truthy_list (urgency_indicators i)
         then False else True)
      else routine_scan i txt inds)"

definition is_obviously_routine :: "insight \<Rightarrow> bool" where
  "is_obviously_routine i =
     routine_scan i (lower (title i @ '' '' @ description i)) obvious_routine"

text \<open>The condition of the quality filter in \<open>_filter_and_rank_insights\<close>.\<close>

definition high_quality :: "insight \<Rightarrow> bool" where
  "high_quality i =
     (confidence_score i \<ge> 7 / 10 \<and>
      length (title i) \<ge> 10 \<and>
      length (description i) \<ge> 20 \<and>
      insight_type i \<in> set business_insight_types \<and>
      (severity i \<in> set [''critical'', ''high'', ''medium''] \<or>
       truthy_num (financial_impact i) \<or> critical_path_impact i) \<and>
      \<not> is_obviously_routine i)"

text \<open>
  \<open>_calculate_similarity\<close>: the Jaccard index of the two sets of lower-cased words,
  and 0 when either text or either word set is empty.
\<close>

definition calculate_similarity :: "string \<Rightarrow> string \<Rightarrow> rat" where
  "calculate_similarity text1 text2 =
     (if text1 = [] \<or> text2 = [] then 0
      else
        let words1 = set (split_ws (lower text1));
            words2 = set (split_ws (lower text2))
        in if words1 = {} \<or> words2 = {} then 0
           else of_nat (card (words1 \<inter> words2)) / of_nat (card (words1 \<union> words2)))"

definition similar :: "insight \<Rightarrow> insight \<Rightarrow> bool" where
  "similar i e =
     (calculate_similarity (title i) (title e) > 7 / 10 \<or>
      calculate_similarity (description i) (description e) > 8 / 10)"

text \<open>
  \<open>_remove_duplicate_insights\<close>. The inner loop stops at the first kept insight that
  is similar to the new one (\<open>first_similar\<close>); the new one replaces it, at the end
  of the list, only when its confidence is strictly higher.
\<close>

fun first_similar :: "insight \<Rightarrow> insight list \<Rightarrow> insight option" where
  "first_similar i [] = None"
| "first_similar i (e # es) = (if similar i e then Some e else first_similar i es)"

definition dedup_step :: "insight list \<Rightarrow> insight \<Rightarrow> insight list" where
  "dedup_step unique_insights i =
     (case first_similar i unique_insights of
        None \<Rightarrow> unique_insights @ [i]
      | Some existing \<Rightarrow>
          if confidence_score i > confidence_score existing
          then remove1 existing unique_insights @ [i]
          else unique_insights)"

definition remove_duplicate_insights :: "insight list \<Rightarrow> insight list" where
  "remove_duplicate_insights insights =
     (if length insights \<le> 1 then insights else foldl dedup_step [] insights)"

definition severity_order :: "string \<Rightarrow> rat" where
  "severity_order s =
     (if s = ''critical'' then 4 else if s = ''high'' then 3
      else if s = ''medium'' then 2 else 1)"

definition insight_score :: "insight \<Rightarrow> rat" where
  "insight_score i =
     severity_order (severity i) * confidence_score i *
     (if truthy_list (urgency_indicators i) then 13 / 10 else 1) *
     (if truthy_num (financial_impact i) then 3 / 2 else 1) *
     (if critical_path_impact i then 2 else 1)"

text \<open>
  \<open>sorted(xs, key=k, reverse=True)\<close>: descending by key, and stable (equal keys keep
  their order), which is the stable ascending sort of the reversed list, reversed.
\<close>

definition sorted_reverse :: "('a \<Rightarrow> rat) \<Rightarrow> 'a list \<Rightarrow> 'a list" where
  "sorted_reverse k xs = rev (sort_key k (rev xs))"

definition max_insights :: nat where
  "max_insights = 5"

definition filter_and_rank_insights :: "insight list \<Rightarrow> insight list" where
  "filter_and_rank_insights insights =
     (if insights = [] then []
      else take max_insights
             (sorted_reverse insight_score
                (remove_duplicate_insights (filter high_quality insights))))"


section \<open>Fixed-window chunking\<close>

text \<open>The exceptions of Python that the modelled code can raise.\<close>

datatype py_error = ValueError | TypeError

text \<open>
  \<open>py_slice s i j\<close> is Python's \<open>s[i:j]\<close> for integer bounds: a negative bound
  counts from the end, and both bounds are clamped to the sequence.
\<close>

definition py_slice :: "'a list \<Rightarrow> int \<Rightarrow> int \<Rightarrow> 'a list" where
  "py_slice s i j =
     (let n = int (length s);
          lo = (if i < 0 then max (i + n) 0 else min i n);
          hi = (if j < 0 then max (j + n) 0 else min j n)
      in take (nat (hi - lo)) (drop (nat lo) s))"

text \<open>
  The loop \<open>for i in range(0, len(text), step)\<close> of \<open>chunk_text\<close>, from index
  \<open>i\<close> on. A negative step makes the range empty; the step 0 is refused by
  \<open>range\<close> before the loop starts, in \<open>chunk_text\<close> below.
\<close>

function chunk_loop :: "string \<Rightarrow> int \<Rightarrow> int \<Rightarrow> int \<Rightarrow> string list" where
  "chunk_loop text chunk_size step i =
     (if step \<le> 0 \<or> i \<ge> int (length text) then []
      else (let chunk = py_slice text i (i + chunk_size)
            in (if chunk \<noteq> [] then [chunk] else []) @
               chunk_loop text chunk_size step (i + step)))"
  by pat_completeness auto
termination
  by (relation "measure (\<lambda>(text, chunk_size, step, i). nat (int (length text) - i))") auto

declare chunk_loop.simps [simp del]

text \<open>\<open>text.replace('\r', '')\<close>\<close>

definition remove_cr :: "string \<Rightarrow> string" where
  "remove_cr text = filter (\<lambda>c. c \<noteq> CHR 0x0D) text"

definition chunk_text :: "string \<Rightarrow> int \<Rightarrow> int \<Rightarrow> py_error + string list" where
  "chunk_text text chunk_size overlap =
     (if text = [] then Inr []
      else let t = remove_cr text; step = chunk_size - overlap
           in if step = 0 then Inl ValueError
              else Inr (chunk_loop t chunk_size step 0))"

section \<open>The storage watcher\<close>










text \<open>\<open>s.split(sep)\<close> for a separator that is not empty.\<close>

function split_sep_acc :: "string \<Rightarrow> string \<Rightarrow> string \<Rightarrow> string list" where
  "split_sep_acc sep acc [] = [acc]"
| "split_sep_acc sep acc (c # cs) =
     (if starts_with (c # cs) sep
      then acc # split_sep_acc sep [] (drop (length sep - 1) cs)
      else split_sep_acc sep (acc @ [c]) cs)"
  by pat_completeness auto
termination
  by (relation "measure (\<lambda>(sep, acc, s). length s)") auto

definition split_sep :: "string \<Rightarrow> string \<Rightarrow> string list" where
  "split_sep sep s = split_sep_acc sep [] s"
















section \<open>Regular expressions as Python's \<open>re\<close> matches them\<close>

text \<open>
  The patterns of the source use character classes, quantified character classes,
  groups, \<open>^\<close>, \<open>$\<close> and \<open>\b\<close>. A pattern is a list of such items. Matching is
  the backtracking search of \<open>re\<close>: a greedy quantifier tries the longest run first,
  a lazy one the shortest, and the first way through the whole pattern wins.
\<close>

datatype rx =
    One "char \<Rightarrow> bool"
  | Star "char \<Rightarrow> bool"
  | Plus "char \<Rightarrow> bool"
  | Opt "char \<Rightarrow> bool"
  | LazyStar "char \<Rightarrow> bool"
  | GOpen
  | GClose
  | Bol
  | Eol
  | WordB

text \<open>
  A position in the subject: the character before it (none at the start), the rest of
  the subject, the starts of the groups that are open, and the groups closed so far.
\<close>

type_synonym mstate = "char option \<times> string \<times> string list \<times> string list"


definition is_alpha :: "char \<Rightarrow> bool" where
  "is_alpha c = (let n = (of_char c :: nat) in (65 \<le> n \<and> n \<le> 90) \<or> (97 \<le> n \<and> n \<le> 122))"

definition is_digit :: "char \<Rightarrow> bool" where
  "is_digit c = (let n = (of_char c :: nat) in 48 \<le> n \<and> n \<le> 57)"

definition is_word :: "char \<Rightarrow> bool" where
  "is_word c = (is_alpha c \<or> is_digit c \<or> c = CHR ''_'')"




definition any_char :: "char \<Rightarrow> bool" where
  "any_char c = True"

definition lit :: "char \<Rightarrow> char \<Rightarrow> bool" where
  "lit a c = (c = a)"


definition consume :: "mstate \<Rightarrow> nat \<Rightarrow> mstate" where
  "consume st k =
     (case st of (p, r, os, gs) \<Rightarrow>
        (if k = 0 then p else Some (r ! (k - 1)), drop k r, os, gs))"

definition word_before :: "char option \<Rightarrow> bool" where
  "word_before p = (case p of None \<Rightarrow> False | Some c \<Rightarrow> is_word c)"

definition word_after :: "string \<Rightarrow> bool" where
  "word_after r = (case r of [] \<Rightarrow> False | c # _ \<Rightarrow> is_word c)"

text \<open>The positions one item can lead to, in the order in which \<open>re\<close> tries them.\<close>

fun alternatives :: "rx \<Rightarrow> mstate \<Rightarrow> mstate list" where
  "alternatives (One cls) (p, r, os, gs) =
     (case r of [] \<Rightarrow> [] | c # cs \<Rightarrow> if cls c then [(Some c, cs, os, gs)] else [])"
| "alternatives (Star cls) (p, r, os, gs) =
     map (consume (p, r, os, gs)) (rev [0 ..< Suc (length (takeWhile cls r))])"
| "alternatives (Plus cls) (p, r, os, gs) =
     map (consume (p, r, os, gs)) (rev [1 ..< Suc (length (takeWhile cls r))])"
| "alternatives (Opt cls) (p, r, os, gs) =
     map (consume (p, r, os, gs)) (rev [0 ..< Suc (min 1 (length (takeWhile cls r)))])"
| "alternatives (LazyStar cls) (p, r, os, gs) =
     map (consume (p, r, os, gs)) [0 ..< Suc (length (takeWhile cls r))]"
| "alternatives GOpen (p, r, os, gs) = [(p, r, r # os, gs)]"
| "alternatives GClose (p, r, os, gs) =
     (case os of
        [] \<Rightarrow> [(p, r, os, gs)]
      | b # os' \<Rightarrow> [(p, r, os', gs @ [take (length b - length r) b])])"
| "alternatives Bol (p, r, os, gs) = (if p = None then [(p, r, os, gs)] else [])"
| "alternatives Eol (p, r, os, gs) =
     (if r = [] \<or> r = [CHR 0x0A] then [(p, r, os, gs)] else [])"
| "alternatives WordB (p, r, os, gs) =
     (if word_before p \<noteq> word_after r then [(p, r, os, gs)] else [])"

fun first_some :: "('a \<Rightarrow> 'b option) \<Rightarrow> 'a list \<Rightarrow> 'b option" where
  "first_some f [] = None"
| "first_some f (a # as) = (case f a of Some b \<Rightarrow> Some b | None \<Rightarrow> first_some f as)"

text \<open>The first way through a pattern from a position, if there is one.\<close>

fun match_here :: "rx list \<Rightarrow> mstate \<Rightarrow> mstate option" where
  "match_here [] st = Some st"
| "match_here (x # xs) st = first_some (match_here xs) (alternatives x st)"




text \<open>
  \<open>re.search(pattern, s)\<close>: the leftmost match, given as its groups and the whole
  matched text.
\<close>

fun search_from :: "rx list \<Rightarrow> char option \<Rightarrow> string \<Rightarrow> (string list \<times> string) option" where
  "search_from pat p [] =
     (case match_here pat (p, [], [], []) of
        None \<Rightarrow> None
      | Some (p', r', os', gs') \<Rightarrow> Some (gs', []))"
| "search_from pat p (c # cs) =
     (case match_here pat (p, c # cs, [], []) of
        None \<Rightarrow> search_from pat (Some c) cs
      | Some (p', r', os', gs') \<Rightarrow> Some (gs', take (length (c # cs) - length r') (c # cs)))"

definition re_search :: "rx list \<Rightarrow> string \<Rightarrow> (string list \<times> string) option" where
  "re_search pat s = search_from pat None s"

text \<open>A literal text as a pattern.\<close>

definition lits :: "string \<Rightarrow> rx list" where
  "lits s = map (\<lambda>a. One (lit a)) s"


section \<open>Adaptive chunking\<close>

text \<open>
  A chunk as the strategies of \<open>text_processor.py\<close> return it: the content, the
  strategy tag, and of the metadata the speakers, the turn range, the recorded size,
  the number of turns or paragraphs and whether context lines were put in front.
\<close>

record chunk =
  content :: string
  chunk_type :: string
  speakers :: "string set"
  turn_range :: "(int \<times> int) option"
  meta_size :: nat
  part_count :: nat
  has_context :: bool



































section \<open>Parsing the model's answer into raw insights\<close>

text \<open>
  A JSON value as \<open>json.loads\<close> returns it; an object is the list of its keys and
  values, each key once. The two library functions the parser relies on are parameters
  of the model: \<open>json.loads\<close>, with \<open>None\<close> for a \<open>JSONDecodeError\<close>, and
  \<open>float\<close> applied to a string, with \<open>None\<close> for a \<open>ValueError\<close>.
\<close>

datatype json =
    JNull
  | JBool bool
  | JNum rat
  | JStr string
  | JList "json list"
  | JObj "(string \<times> json) list"

record library =
  json_loads :: "string \<Rightarrow> json option"
  py_float :: "string \<Rightarrow> rat option"

fun is_dict :: "json \<Rightarrow> bool" where
  "is_dict (JObj kvs) = True"
| "is_dict v = False"

text \<open>The values \<open>len\<close> accepts; on the others it raises a \<open>TypeError\<close>.\<close>

fun has_len :: "json \<Rightarrow> bool" where
  "has_len (JStr s) = True"
| "has_len (JList xs) = True"
| "has_len (JObj kvs) = True"
| "has_len v = False"

text \<open>\<open>d[k] = v\<close> on a dictionary that keeps the order of insertion.\<close>

fun dict_set :: "string \<Rightarrow> json \<Rightarrow> (string \<times> json) list \<Rightarrow> (string \<times> json) list" where
  "dict_set k v [] = [(k, v)]"
| "dict_set k v ((k', v') # d) = (if k' = k then (k, v) # d else (k', v') # dict_set k v d)"

text \<open>\<open>_create_fallback_insights\<close>\<close>

definition budget_stub :: json where
  "budget_stub =
     JObj [(''insight_type'', JStr ''budget_impact''),
           (''title'', JStr ''Financial Impact Identified''),
           (''description'',
            JStr ''Document contains financial implications that require review.''),
           (''severity'', JStr ''medium''), (''confidence_score'', JNum (6 / 10))]"

definition urgent_stub :: json where
  "urgent_stub =
     JObj [(''insight_type'', JStr ''risk''), (''title'', JStr ''Urgent Issue Identified''),
           (''description'',
            JStr ''Document contains urgent or critical issues requiring attention.''),
           (''severity'', JStr ''high''), (''confidence_score'', JNum (7 / 10))]"

definition action_stub :: json where
  "action_stub =
     JObj [(''insight_type'', JStr ''action_item''), (''title'', JStr ''Action Items Identified''),
           (''description'',
            JStr ''Document contains action items or tasks that need to be completed.''),
           (''severity'', JStr ''medium''), (''confidence_score'', JNum (6 / 10))]"

definition create_fallback_insights :: "string \<Rightarrow> json list" where
  "create_fallback_insights response_text =
     (let text_lower = lower response_text
      in (if contains response_text ''$'' \<or> contains text_lower ''budget'' \<or>
             contains text_lower ''cost''
          then [budget_stub] else []) @
         (if list_ex (contains text_lower) [''urgent'', ''critical'', ''emergency'', ''immediate'']
          then [urgent_stub] else []) @
         (if list_ex (contains text_lower) [''action'', ''todo'', ''task'', ''deadline'']
          then [action_stub] else []))"

text \<open>
  \<open>_parse_insights_from_text\<close>: the lines of the form \<open>key: value\<close> are read into
  dictionaries, a \<open>type\<close> line starting a new one. The state of the loop is the list
  of finished \<open>insights\<close> and \<open>current_insight\<close>.
\<close>

definition strip_quotes :: "string \<Rightarrow> string" where
  "strip_quotes s =
     (let q = (\<lambda>c. c = CHR 0x22 \<or> c = CHR 0x27)
      in rev (dropWhile q (rev (dropWhile q s))))"

definition line_key :: "string \<Rightarrow> string" where
  "line_key line =
     map (\<lambda>c. if c = CHR '' '' then CHR ''_'' else c)
       (lower (strip (takeWhile (\<lambda>c. c \<noteq> CHR '':'') line)))"

definition line_value :: "string \<Rightarrow> string" where
  "line_value line = strip_quotes (strip (tl (dropWhile (\<lambda>c. c \<noteq> CHR '':'') line)))"

fun digits_value :: "string \<Rightarrow> nat \<Rightarrow> nat" where
  "digits_value [] acc = acc"
| "digits_value (c # cs) acc = digits_value cs (10 * acc + (of_char c - 48))"

text \<open>
  The number of a \<open>financial_impact\<close> line: with dollar signs and commas removed, the
  first run of digits, if there is one.
\<close>

definition first_number :: "string \<Rightarrow> rat option" where
  "first_number v =
     (let v' = filter (\<lambda>c. c \<noteq> CHR ''$'' \<and> c \<noteq> CHR '','') v;
          run = takeWhile is_digit (dropWhile (\<lambda>c. \<not> is_digit c) v')
      in if run = [] then None else Some (of_nat (digits_value run 0)))"

definition text_line ::
  "library \<Rightarrow> json list \<times> (string \<times> json) list \<Rightarrow> string
     \<Rightarrow> json list \<times> (string \<times> json) list"
where
  "text_line lib st l =
     (case st of (insights, current_insight) \<Rightarrow>
        let line = strip l
        in if line = [] \<or> CHR '':'' \<notin> set line then st
           else
             let key = line_key line; v = line_value line
             in if key \<in> set [''type'', ''insight_type'']
                then ((if current_insight \<noteq> [] then insights @ [JObj current_insight]
                       else insights),
                      [(''insight_type'', JStr v)])
                else if key = ''title''
                then (insights, dict_set ''title'' (JStr v) current_insight)
                else if key = ''description''
                then (insights, dict_set ''description'' (JStr v) current_insight)
                else if key \<in> set [''severity'', ''priority'']
                then (insights, dict_set ''severity'' (JStr v) current_insight)
                else if key \<in> set [''confidence'', ''confidence_score'']
                then (insights,
                      dict_set ''confidence_score''
                        (JNum (case py_float lib v of Some x \<Rightarrow> x | None \<Rightarrow> 7 / 10))
                        current_insight)
                else if key \<in> set [''assignee'', ''assigned_to'']
                then (insights, dict_set ''assignee'' (JStr v) current_insight)
                else if key = ''financial_impact''
                then (case first_number v of
                        Some x \<Rightarrow> (insights, dict_set ''financial_impact'' (JNum x) current_insight)
                      | None \<Rightarrow> st)
                else st)"

definition parse_insights_from_text :: "library \<Rightarrow> string \<Rightarrow> json list" where
  "parse_insights_from_text lib response_text =
     (case foldl (text_line lib) ([], []) (split_sep [CHR 0x0A] response_text) of
        (insights, current_insight) \<Rightarrow>
          let all_insights =
                (if current_insight \<noteq> [] \<and> map_of current_insight ''title'' \<noteq> None
                 then insights @ [JObj current_insight] else insights)
          in if all_insights = [] then create_fallback_insights response_text
             else all_insights)"

text \<open>
  The three patterns of \<open>_parse_insights_json\<close>: a fenced block tagged \<open>json\<close>, any
  fenced block, and an array of objects anywhere in the text.
\<close>

definition json_patterns :: "rx list list" where
  "json_patterns =
     [lits ''```json'' @ [Star is_space, GOpen, LazyStar any_char, GClose, Star is_space] @
        lits ''```'',
      lits ''```'' @ [Star is_space, GOpen, LazyStar any_char, GClose, Star is_space] @
        lits ''```'',
      [One (lit CHR ''[''), Star is_space, One (lit CHR ''{''), LazyStar any_char,
       One (lit CHR ''}''), Star is_space, One (lit CHR '']'')]]"

text \<open>
  The loop over the patterns, run after the direct parse has failed: the first pattern
  whose match parses to a non-empty list with at least one object gives the objects of
  that list; a match that does not parse, or parses to anything else, is passed over.
\<close>

fun try_patterns :: "library \<Rightarrow> rx list list \<Rightarrow> string \<Rightarrow> json list option" where
  "try_patterns lib [] response_text = None"
| "try_patterns lib (pat # pats) response_text =
     (case re_search pat response_text of
        None \<Rightarrow> try_patterns lib pats response_text
      | Some (gs, whole) \<Rightarrow>
          (case json_loads lib (strip (case gs of g # _ \<Rightarrow> g | [] \<Rightarrow> whole)) of
             Some (JList items) \<Rightarrow>
               if items \<noteq> [] \<and> filter is_dict items \<noteq> []
               then Some (filter is_dict items)
               else try_patterns lib pats response_text
           | _ \<Rightarrow> try_patterns lib pats response_text))"

text \<open>
  \<open>_parse_insights_json\<close>. The value returned is a list on every path but one: a
  dictionary with the key \<open>insights\<close> gives the value of that key as it is, after
  its \<open>len\<close> has been logged, and \<open>len\<close> raises a \<open>TypeError\<close> for a number, a
  truth value or \<open>null\<close>; only \<open>JSONDecodeError\<close> is caught.
\<close>

definition parse_insights_json :: "library \<Rightarrow> string \<Rightarrow> py_error + json" where
  "parse_insights_json lib response_text =
     (case json_loads lib response_text of
        Some (JList insights) \<Rightarrow> Inr (JList insights)
      | Some (JObj kvs) \<Rightarrow>
          (case map_of kvs ''insights'' of
             Some v \<Rightarrow> if has_len v then Inr v else Inl TypeError
           | None \<Rightarrow> Inr (JList []))
      | Some other \<Rightarrow> Inr (JList [])
      | None \<Rightarrow>
          (case try_patterns lib json_patterns response_text of
             Some valid_insights \<Rightarrow> Inr (JList valid_insights)
           | None \<Rightarrow> Inr (JList (parse_insights_from_text lib response_text))))"

section \<open>Concrete inputs\<close>

text \<open>Candidates used to exercise the quality stage at concrete values.\<close>

definition cand :: insight where
  "cand = \<lparr>document_id = ''doc-1'', insight_type = ''risk'',
     title = ''Vendor contract overrun'',
     description = ''The vendor contract is over the agreed budget.'',
     confidence_score = 6 / 10, severity = ''high'', financial_impact = None,
     urgency_indicators = None, critical_path_impact = False\<rparr>"

definition cand_financial :: insight where
  "cand_financial = cand\<lparr>financial_impact := Some 10000\<rparr>"

definition cand_low_severity :: insight where
  "cand_low_severity =
     cand\<lparr>confidence_score := 8 / 10, severity := ''low'', financial_impact := Some 10000\<rparr>"

definition dup_a :: insight where
  "dup_a = \<lparr>document_id = ''doc-1'', insight_type = ''risk'',
     title = ''Server migration slips'', description = ''alpha beta gamma delta'',
     confidence_score = 9 / 10, severity = ''high'', financial_impact = None,
     urgency_indicators = None, critical_path_impact = False\<rparr>"

definition dup_b :: insight where
  "dup_b = dup_a\<lparr>title := ''Budget review pending'',
     description := ''alpha beta gamma delta epsilon'', confidence_score := 8 / 10\<rparr>"

definition dup_c :: insight where
  "dup_c = dup_a\<lparr>title := ''Budget review pending'',
     description := ''alpha beta gamma delta epsilon zeta'', confidence_score := 8 / 10\<rparr>"

definition dup_d :: insight where
  "dup_d = dup_a\<lparr>description := ''alpha beta gamma delta epsilon''\<rparr>"

definition chain_x :: insight where
  "chain_x = dup_a\<lparr>title := ''first'', description := ''a b c d e'',
     confidence_score := 9 / 10\<rparr>"

definition chain_a :: insight where
  "chain_a = dup_a\<lparr>title := ''second'', description := ''a b c d e f'',
     confidence_score := 8 / 10\<rparr>"

definition chain_b :: insight where
  "chain_b = dup_a\<lparr>title := ''third'', description := ''a b c d e f g'',
     confidence_score := 3 / 4\<rparr>"


















section \<open>Properties of the filter, deduplicate, rank stage\<close>

lemma set_dedup_step: "set (dedup_step u i) \<subseteq> insert i (set u)"
  by (auto simp: dedup_step_def split: option.splits dest: notin_set_remove1)

lemma set_foldl_dedup_step: "set (foldl dedup_step u xs) \<subseteq> set u \<union> set xs"
proof (induction xs arbitrary: u)
  case Nil
  show ?case by simp
next
  case (Cons x xs)
  have "set (foldl dedup_step (dedup_step u x) xs) \<subseteq> set (dedup_step u x) \<union> set xs"
    by (rule Cons.IH)
  with set_dedup_step [of u x] show ?case by auto
qed

lemma set_remove_duplicate_insights: "set (remove_duplicate_insights xs) \<subseteq> set xs"
  using set_foldl_dedup_step [of "[]" xs] by (simp add: remove_duplicate_insights_def)

lemma set_filter_and_rank_insights:
  "set (filter_and_rank_insights xs) \<subseteq> {i \<in> set xs. high_quality i}"
proof -
  let ?d = "remove_duplicate_insights (filter high_quality xs)"
  have "set (filter_and_rank_insights xs) \<subseteq> set ?d"
    using set_take_subset [of max_insights "sorted_reverse insight_score ?d"]
    by (auto simp: filter_and_rank_insights_def sorted_reverse_def)
  also have "\<dots> \<subseteq> set (filter high_quality xs)"
    by (rule set_remove_duplicate_insights)
  finally show ?thesis by auto
qed

lemma filter_and_rank_single:
  "filter_and_rank_insights [c] = (if high_quality c then [c] else [])"
  by (simp add: filter_and_rank_insights_def remove_duplicate_insights_def
      sorted_reverse_def max_insights_def)

text \<open>
  Claim C1, as the code has it. Every insight that leaves the filtering stage has
  confidence at least 0.7, a title of at least 10 and a description of at least 20
  characters, whether or not it carries a financial impact or the critical-path flag:
  these three thresholds have no escape. The escape applies to the severity test only:
  a candidate that meets the thresholds, has a valid type and is not routine survives
  on its own, whatever its severity, when it carries a financial impact or the
  critical-path flag.
\<close>

theorem filter_thresholds_have_no_escape:
  "(\<forall>c \<in> set (filter_and_rank_insights insights).
      7 / 10 \<le> confidence_score c \<and> 10 \<le> length (title c) \<and>
      20 \<le> length (description c)) \<and>
   (7 / 10 \<le> confidence_score d \<and> 10 \<le> length (title d) \<and>
    20 \<le> length (description d) \<and> insight_type d \<in> set business_insight_types \<and>
    \<not> is_obviously_routine d \<and>
    (truthy_num (financial_impact d) \<or> critical_path_impact d)
    \<longrightarrow> filter_and_rank_insights [d] = [d])"
proof -
  have thresholds: "\<forall>c \<in> set (filter_and_rank_insights insights).
      7 / 10 \<le> confidence_score c \<and> 10 \<le> length (title c) \<and>
      20 \<le> length (description c)"
  proof (rule ballI)
    fix c
    assume "c \<in> set (filter_and_rank_insights insights)"
    then have "high_quality c"
      using set_filter_and_rank_insights [of insights] by auto
    then show "7 / 10 \<le> confidence_score c \<and> 10 \<le> length (title c) \<and>
        20 \<le> length (description c)"
      by (simp add: high_quality_def)
  qed
  have escape: "7 / 10 \<le> confidence_score d \<and> 10 \<le> length (title d) \<and>
      20 \<le> length (description d) \<and> insight_type d \<in> set business_insight_types \<and>
      \<not> is_obviously_routine d \<and>
      (truthy_num (financial_impact d) \<or> critical_path_impact d)
      \<longrightarrow> filter_and_rank_insights [d] = [d]"
  proof (rule impI)
    assume "7 / 10 \<le> confidence_score d \<and> 10 \<le> length (title d) \<and>
      20 \<le> length (description d) \<and> insight_type d \<in> set business_insight_types \<and>
      \<not> is_obviously_routine d \<and>
      (truthy_num (financial_impact d) \<or> critical_path_impact d)"
    then have "high_quality d"
      by (auto simp: high_quality_def)
    then show "filter_and_rank_insights [d] = [d]"
      by (simp add: filter_and_rank_single)
  qed
  show ?thesis
    by (rule conjI [OF thresholds escape])
qed

theorem filter_thresholds_have_no_escape_witness:
  "filter_and_rank_insights [cand, cand_low_severity] = [cand_low_severity] \<and>
   7 / 10 \<le> confidence_score cand_low_severity \<and>
   severity cand_low_severity = ''low'' \<and>
   filter_and_rank_insights [cand_low_severity] = [cand_low_severity]"
proof -
  have run: "filter_and_rank_insights [cand, cand_low_severity] = [cand_low_severity]"
    by code_simp
  have pre: "7 / 10 \<le> confidence_score cand_low_severity \<and>
      10 \<le> length (title cand_low_severity) \<and>
      20 \<le> length (description cand_low_severity) \<and>
      insight_type cand_low_severity \<in> set business_insight_types \<and>
      \<not> is_obviously_routine cand_low_severity \<and>
      (truthy_num (financial_impact cand_low_severity) \<or>
       critical_path_impact cand_low_severity)"
    by code_simp
  have sev: "severity cand_low_severity = ''low''"
    by (simp add: cand_low_severity_def)
  from filter_thresholds_have_no_escape [of "[cand, cand_low_severity]" cand_low_severity]
  show ?thesis using run pre sev by simp
qed

text \<open>
  Claim C1 as stated fails: the candidate with confidence 0.6 is dropped also when it
  carries a financial impact of 10000.
\<close>

theorem financial_impact_does_not_rescue_low_confidence:
  "confidence_score cand_financial = 6 / 10 \<and>
   financial_impact cand_financial = Some 10000 \<and>
   filter_and_rank_insights [cand_financial] = []"
proof -
  have "filter_and_rank_insights [cand_financial] = []"
    by code_simp
  then show ?thesis
    by (simp add: cand_financial_def cand_def)
qed

text \<open>
  Claim C2: whatever the candidates, the filter, deduplicate, rank stage returns at
  most 5 insights.
\<close>

theorem insight_cap: "length (filter_and_rank_insights insights) \<le> 5"
  by (simp add: filter_and_rank_insights_def max_insights_def)

text \<open>
  Claim C5, as the code has it. Of two candidates whose title similarity is strictly
  above 0.7 or whose description similarity is strictly above 0.8, exactly one is
  kept: the second when its confidence is strictly higher, the first otherwise. Two
  candidates that are not that similar are both kept.
\<close>

theorem dedup_pair:
  "remove_duplicate_insights [a, b] =
     (if similar b a
      then (if confidence_score b > confidence_score a then [b] else [a])
      else [a, b])"
  by (simp add: remove_duplicate_insights_def dedup_step_def)

theorem dedup_pair_witness:
  "similar dup_c dup_d \<and> remove_duplicate_insights [dup_d, dup_c] = [dup_d] \<and>
   similar dup_d dup_c \<and> remove_duplicate_insights [dup_c, dup_d] = [dup_d]"
proof -
  have s1: "similar dup_c dup_d"
    by code_simp
  have s2: "similar dup_d dup_c"
    by code_simp
  have c: "confidence_score dup_c < confidence_score dup_d"
    by (simp add: dup_c_def dup_d_def dup_a_def)
  show ?thesis
    using dedup_pair [of dup_d dup_c] dedup_pair [of dup_c dup_d] s1 s2 c by simp
qed

text \<open>
  Claim C5 as stated fails in two ways. At a description similarity of exactly 0.8
  (four shared words of five) both candidates are kept. And in a longer list the one
  survivor of a similar pair can be the one of lower confidence: \<open>chain_a\<close> loses
  against \<open>chain_x\<close>, after which \<open>chain_b\<close>, similar to \<open>chain_a\<close> only, is kept.
\<close>

theorem dedup_threshold_is_strict:
  "calculate_similarity (description dup_b) (description dup_a) = 8 / 10 \<and>
   remove_duplicate_insights [dup_a, dup_b] = [dup_a, dup_b] \<and>
   calculate_similarity (description chain_b) (description chain_a) = 6 / 7 \<and>
   confidence_score chain_b < confidence_score chain_a \<and>
   remove_duplicate_insights [chain_x, chain_a, chain_b] = [chain_x, chain_b]"
  by code_simp

section \<open>Properties of fixed-window chunking\<close>

lemma py_slice_pos: "0 \<le> i \<Longrightarrow> 0 \<le> k \<Longrightarrow> py_slice s i (i + k) = take (nat k) (drop (nat i) s)"
proof -
  assume i: "0 \<le> i" and k: "0 \<le> k"
  have d: "nat (min (i + k) (int (length s)) - min i (int (length s))) = min (nat k) (length s - nat i)"
    using i k by (auto simp: min_def)
  have "py_slice s i (i + k) = take (min (nat k) (length s - nat i)) (drop (nat (min i (int (length s)))) s)"
    using i k d by (simp add: py_slice_def Let_def)
  also have "\<dots> = take (nat k) (drop (nat i) s)"
    using i by (cases "i \<le> int (length s)") (auto simp: min_def)
  finally show ?thesis .
qed

lemma chunk_loop_len: "0 \<le> i \<Longrightarrow> 0 < chunk_size \<Longrightarrow> c \<in> set (chunk_loop t chunk_size step i) \<Longrightarrow> int (length c) \<le> chunk_size"
proof (induction t chunk_size step i rule: chunk_loop.induct)
  case (1 s chunk_size step i)
  show ?case
  proof (cases "step \<le> 0 \<or> i \<ge> int (length s)")
    case True
    with "1.prems" show ?thesis by (simp add: chunk_loop.simps)
  next
    case False
    from "1.prems"(3) False
    have "c = py_slice s i (i + chunk_size) \<or> c \<in> set (chunk_loop s chunk_size step (i + step))"
      by (subst (asm) chunk_loop.simps) (auto simp: Let_def split: if_splits)
    then show ?thesis
    proof
      assume "c = py_slice s i (i + chunk_size)"
      then show ?thesis using "1.prems" by (simp add: py_slice_pos)
    next
      assume "c \<in> set (chunk_loop s chunk_size step (i + step))"
      then show ?thesis using "1.IH"[OF False refl] "1.prems" False by simp
    qed
  qed
qed

lemma chunk_loop_concat:
  "0 \<le> i \<Longrightarrow> 0 \<le> overlap \<Longrightarrow> overlap < chunk_size \<Longrightarrow>
   concat (map (drop (nat overlap)) (chunk_loop t chunk_size (chunk_size - overlap) i)) = drop (nat (i + overlap)) t"
proof (induction t chunk_size "chunk_size - overlap" i rule: chunk_loop.induct)
  case (1 s chunk_size i)
  let ?step = "chunk_size - overlap"
  show ?case
  proof (cases "i \<ge> int (length s)")
    case True
    with "1.prems" show ?thesis by (simp add: chunk_loop.simps)
  next
    case False
    then have F: "\<not> (?step \<le> 0 \<or> i \<ge> int (length s))" using "1.prems" by simp
    have ne: "py_slice s i (i + chunk_size) \<noteq> []"
      using False "1.prems" by (simp add: py_slice_pos)
    have IH: "concat (map (drop (nat overlap)) (chunk_loop s chunk_size ?step (i + ?step))) = drop (nat (i + ?step + overlap)) s"
      using "1.hyps"[OF F refl] "1.prems" by simp
    have "concat (map (drop (nat overlap)) (chunk_loop s chunk_size ?step i))
        = drop (nat overlap) (py_slice s i (i + chunk_size)) @ drop (nat (i + chunk_size)) s"
      using F ne IH by (subst chunk_loop.simps) (simp add: Let_def)
    also have "\<dots> = drop (nat (i + overlap)) s"
    proof -
      have a: "drop (nat overlap) (py_slice s i (i + chunk_size)) = take (nat (chunk_size - overlap)) (drop (nat (i + overlap)) s)"
      proof -
        have "py_slice s i (i + chunk_size) = take (nat chunk_size) (drop (nat i) s)"
          using "1.prems" by (simp add: py_slice_pos)
        then show ?thesis
          using "1.prems" by (simp add: drop_take nat_add_distrib nat_diff_distrib add.commute)
      qed
      have b: "drop (nat (i + chunk_size)) s = drop (nat (chunk_size - overlap)) (drop (nat (i + overlap)) s)"
      proof -
        have "nat (i + chunk_size) = nat (chunk_size - overlap) + nat (i + overlap)"
          using "1.prems" by arith
        then show ?thesis by simp
      qed
      show ?thesis unfolding a b by (rule append_take_drop_id)
    qed
    finally show ?thesis .
  qed
qed


text \<open>
  Claim C10, as the code has it. For a non-empty text: with overlap equal to
  \<open>chunk_size\<close> the call raises (\<open>range\<close> refuses the step 0); with overlap greater
  than \<open>chunk_size\<close> it returns the empty list; with \<open>0 \<le> overlap < chunk_size\<close>
  and at least one character other than a carriage return it returns a non-empty list
  of chunks, each of at most \<open>chunk_size\<close> characters, and the first chunk followed by
  the later chunks without their first \<open>overlap\<close> characters is the text with the
  carriage returns removed.
\<close>

theorem chunk_text_cases:
  assumes "text \<noteq> []"
  shows "(overlap = chunk_size \<longrightarrow> chunk_text text chunk_size overlap = Inl ValueError) \<and>
         (overlap > chunk_size \<longrightarrow> chunk_text text chunk_size overlap = Inr []) \<and>
         (0 \<le> overlap \<and> overlap < chunk_size \<and> remove_cr text \<noteq> [] \<longrightarrow>
            (\<exists>c cs. chunk_text text chunk_size overlap = Inr (c # cs) \<and>
               (\<forall>x \<in> set (c # cs). int (length x) \<le> chunk_size) \<and>
               c @ concat (map (drop (nat overlap)) cs) = remove_cr text))"
proof (intro conjI impI)
  assume "overlap = chunk_size"
  then show "chunk_text text chunk_size overlap = Inl ValueError"
    using assms by (simp add: chunk_text_def)
next
  assume "overlap > chunk_size"
  then show "chunk_text text chunk_size overlap = Inr []"
    using assms by (simp add: chunk_text_def chunk_loop.simps)
next
  assume h: "0 \<le> overlap \<and> overlap < chunk_size \<and> remove_cr text \<noteq> []"
  let ?t = "remove_cr text"
  let ?step = "chunk_size - overlap"
  let ?c = "py_slice ?t 0 (0 + chunk_size)"
  let ?cs = "chunk_loop ?t chunk_size ?step (0 + ?step)"
  have c: "?c = take (nat chunk_size) ?t"
    using h py_slice_pos [of 0 chunk_size ?t] by simp
  then have ne: "?c \<noteq> []" using h by simp
  have run: "chunk_text text chunk_size overlap = Inr (?c # ?cs)"
    using assms h ne by (simp add: chunk_text_def Let_def chunk_loop.simps [of ?t chunk_size ?step 0])
  have len: "\<forall>x \<in> set (?c # ?cs). int (length x) \<le> chunk_size"
    using h c chunk_loop_len [of ?step chunk_size _ ?t ?step] by auto
  have "concat (map (drop (nat overlap)) ?cs) = drop (nat (?step + overlap)) ?t"
    using h chunk_loop_concat [of ?step overlap chunk_size ?t] by simp
  then have cat: "?c @ concat (map (drop (nat overlap)) ?cs) = ?t"
    using c by simp
  show "\<exists>c cs. chunk_text text chunk_size overlap = Inr (c # cs) \<and>
               (\<forall>x \<in> set (c # cs). int (length x) \<le> chunk_size) \<and>
               c @ concat (map (drop (nat overlap)) cs) = remove_cr text"
    using run len cat by blast
qed

theorem chunk_text_cases_witness:
  "chunk_text ''abcdefghij'' 4 4 = Inl ValueError \<and>
   chunk_text ''abcdefghij'' 4 5 = Inr [] \<and>
   (\<exists>c cs. chunk_text ''abcdefghij'' 4 1 = Inr (c # cs) \<and>
      c @ concat (map (drop (nat 1)) cs) = remove_cr ''abcdefghij'')"
proof -
  have ne: "''abcdefghij'' \<noteq> []"
    by simp
  have cr: "remove_cr ''abcdefghij'' \<noteq> []"
    by (simp add: remove_cr_def)
  show ?thesis
    using chunk_text_cases [OF ne, of 4 4] chunk_text_cases [OF ne, of 5 4]
      chunk_text_cases [OF ne, of 1 4] cr
    by auto
qed

text \<open>
  Claim C10 as stated fails for a non-empty text made of carriage returns only: with
  \<open>0 \<le> overlap < chunk_size\<close> the result is the empty list.
\<close>

theorem chunk_text_of_carriage_returns_is_empty:
  "[CHR 0x0D] \<noteq> [] \<and> chunk_text [CHR 0x0D] 400 0 = Inr []"
  by (simp add: chunk_text_def remove_cr_def chunk_loop.simps)

section \<open>Properties of the storage watcher\<close>



















section \<open>Properties of adaptive chunking\<close>




















section \<open>Properties of the answer parser\<close>







lemma parse_insights_json_wrapper_without_len:
  "json_loads lib t = Some (JObj [(''insights'', JNum 5)]) \<Longrightarrow>
   parse_insights_json lib t = Inl TypeError"
  by (simp add: parse_insights_json_def)






end
